theory Spec2Isabelle
  imports Main "HOL-Library.Word"
begin

section \<open>The listener writer of istioctl (configdump/listener.go)\<close>

text \<open>
  The file \<^verbatim>\<open>istioctl/pkg/writer/envoy/configdump/listener.go\<close> reads the listeners
  out of an Envoy config dump, classifies each one by its filters, filters them by
  address, port and type, and prints a summary table or a JSON dump.

  Conventions of the embedding.
  \<^item> A Go \<^verbatim>\<open>string\<close> and a Go \<^verbatim>\<open>[]byte\<close> are both a \<open>string\<close> (a list of bytes).
  \<^item> A Go pointer that may be nil is an \<open>option\<close>.
  \<^item> A function that returns \<^verbatim>\<open>(T, error)\<close> returns \<open>error + T\<close>, \<open>Inl\<close> the error.
  \<^item> A function that can stop with a run-time panic returns an \<open>exec\<close>.
  \<^item> Where two Go structs have a field of the same name, the field carries the
    struct's name in front (\<open>Listener_Address\<close>, \<open>SocketAddress_Address\<close>).
\<close>

subsection \<open>Data: the protobuf messages the code reads\<close>

text \<open>\<^verbatim>\<open>any.Any\<close>: a type URL and the serialized bytes.\<close>

record Any =
  TypeUrl :: string
  Value :: string

text \<open>
  \<^verbatim>\<open>listener.Filter\<close>: the name and the typed configuration (nil when the filter
  carries none, or carries the older untyped one).
\<close>

record Filter =
  Name :: string
  TypedConfig :: "Any option"

record FilterChain =
  Filters :: "Filter list"

text \<open>
  \<^verbatim>\<open>core.SocketAddress\<close> with its port specifier (a number, a name, or unset) and
  \<^verbatim>\<open>core.Address\<close>, which is a socket address, a pipe (a Unix domain socket path),
  or unset.
\<close>

datatype PortSpecifier = PortValue "32 word" | NamedPort string

record SocketAddress =
  SocketAddress_Address :: string
  PortSpecifier :: "PortSpecifier option"

datatype Address = Address_SocketAddress SocketAddress | Address_Pipe string | Address_NotSet

record Listener =
  Listener_Name :: string
  Listener_Address :: "Address option"
  FilterChains :: "FilterChain list"

text \<open>
  The generated getters are nil-safe: called on nil they return the zero value.
\<close>

definition GetValue :: "Any option \<Rightarrow> string" where
  "GetValue a = (case a of None \<Rightarrow> [] | Some x \<Rightarrow> Value x)"

definition GetSocketAddress :: "Address option \<Rightarrow> SocketAddress option" where
  "GetSocketAddress a =
     (case a of
        Some (Address_SocketAddress s) \<Rightarrow> Some s
      | _ \<Rightarrow> None)"

definition GetPortValue :: "SocketAddress option \<Rightarrow> 32 word" where
  "GetPortValue s =
     (case s of
        None \<Rightarrow> 0
      | Some sa \<Rightarrow> (case PortSpecifier sa of Some (PortValue p) \<Rightarrow> p | _ \<Rightarrow> 0))"

text \<open>An evaluation either returns a value or stops with a run-time panic.\<close>

datatype 'a exec = Return 'a | Panic

subsection \<open>Strings\<close>

text \<open>\<^verbatim>\<open>strings.HasPrefix\<close> and \<^verbatim>\<open>strings.Contains\<close>, on bytes.\<close>

fun HasPrefix :: "string \<Rightarrow> string \<Rightarrow> bool" where
  "HasPrefix s [] = True"
| "HasPrefix [] (p # ps) = False"
| "HasPrefix (c # s) (p # ps) = (c = p \<and> HasPrefix s ps)"

fun Contains :: "string \<Rightarrow> string \<Rightarrow> bool" where
  "Contains [] substr = (substr = [])"
| "Contains (c # s) substr = (HasPrefix (c # s) substr \<or> Contains s substr)"

text \<open>
  \<^verbatim>\<open>strings.EqualFold\<close> on ASCII text: the letters A to Z equal their lower-case
  forms, every other byte equals itself only. (Go folds all of Unicode; addresses and
  type labels are ASCII. No general proof below looks inside \<open>EqualFold\<close>.)
\<close>

definition toLower :: "char \<Rightarrow> char" where
  "toLower c =
     (let n = (of_char c :: nat) in if 65 \<le> n \<and> n \<le> 90 then char_of (n + 32) else c)"

definition EqualFold :: "string \<Rightarrow> string \<Rightarrow> bool" where
  "EqualFold s t = (map toLower s = map toLower t)"

text \<open>\<^verbatim>\<open>%v\<close> of a \<^verbatim>\<open>uint32\<close>: the decimal digits, no sign, no leading zero.\<close>

definition digit :: "nat \<Rightarrow> char" where
  "digit d = char_of (48 + d)"

fun FormatUint :: "nat \<Rightarrow> string" where
  "FormatUint n = (if n < 10 then [digit n] else FormatUint (n div 10) @ [digit (n mod 10)])"

declare FormatUint.simps [simp del]

subsection \<open>Constants\<close>

definition HTTPListener :: string where
  "HTTPListener = ''envoy.http_connection_manager''"

definition TCPListener :: string where
  "TCPListener = ''envoy.tcp_proxy''"

text \<open>
  Modelled from the spec: \<^verbatim>\<open>util.BlackHoleCluster\<close> is declared in
  \<^verbatim>\<open>pilot/pkg/networking/util\<close>, which is not among the sources; the spec calls it
  the well-known black-hole cluster marker string. The value below is the name of that
  cluster. No general proof below depends on it.
\<close>

definition BlackHoleCluster :: string where
  "BlackHoleCluster = ''BlackHoleCluster''"

text \<open>
  Modelled from the spec: \<^verbatim>\<open>v3.ListenerType\<close> is declared in
  \<^verbatim>\<open>pilot/pkg/proxy/envoy/v3\<close>, which is not among the sources; the spec calls it
  the canonical (v3) listener type identifier. No proof below depends on its value.
\<close>

definition ListenerType :: string where
  "ListenerType = ''type.googleapis.com/envoy.config.listener.v3.Listener''"

subsection \<open>ListenerFilter and the classifier\<close>

record ListenerFilter =
  Address :: string
  Port :: "32 word"
  Type :: string

text \<open>
  The body of the inner loop of \<^verbatim>\<open>retrieveListenerType\<close>, on the pair of counters
  \<open>(nHTTP, nTCP)\<close>. The counters are Go \<^verbatim>\<open>int\<close>s that count filters held in memory,
  so they cannot overflow; they are natural numbers here.
\<close>

definition countFilter :: "Filter \<Rightarrow> nat \<times> nat \<Rightarrow> nat \<times> nat" where
  "countFilter fltr = (\<lambda>(nHTTP, nTCP).
     if Name fltr = HTTPListener then (nHTTP + 1, nTCP)
     else if Name fltr = TCPListener then
       (if \<not> Contains (GetValue (TypedConfig fltr)) BlackHoleCluster
        then (nHTTP, nTCP + 1) else (nHTTP, nTCP))
     else (nHTTP, nTCP))"

text \<open>The two nested loops, from both counters at zero.\<close>

definition countFilters :: "Listener \<Rightarrow> nat \<times> nat" where
  "countFilters l =
     fold (\<lambda>filterChain. fold countFilter (Filters filterChain)) (FilterChains l) (0, 0)"

definition retrieveListenerType :: "Listener \<Rightarrow> string" where
  "retrieveListenerType l =
     (case countFilters l of (nHTTP, nTCP) \<Rightarrow>
        if nHTTP > 0 then (if nTCP = 0 then ''HTTP'' else ''HTTP+TCP'')
        else if nTCP > 0 then ''TCP''
        else ''UNKNOWN'')"

text \<open>
  \<^verbatim>\<open>l.Address.GetSocketAddress().Address\<close> reads a field through the pointer the
  getter returns: when the listener has no socket address the pointer is nil and the
  read panics. \<^verbatim>\<open>GetPortValue()\<close> is a getter and returns 0 there.
\<close>

definition retrieveListenerAddress :: "Listener \<Rightarrow> string exec" where
  "retrieveListenerAddress l =
     (case GetSocketAddress (Listener_Address l) of
        None \<Rightarrow> Panic
      | Some s \<Rightarrow> Return (SocketAddress_Address s))"

definition retrieveListenerPort :: "Listener \<Rightarrow> 32 word" where
  "retrieveListenerPort l = GetPortValue (GetSocketAddress (Listener_Address l))"

text \<open>Sequencing: a panic in the first evaluation ends the whole one.\<close>

definition bind_exec :: "'a exec \<Rightarrow> ('a \<Rightarrow> 'b exec) \<Rightarrow> 'b exec" where
  "bind_exec m k = (case m of Panic \<Rightarrow> Panic | Return x \<Rightarrow> k x)"

text \<open>
  \<^verbatim>\<open>Verify\<close>, with the classifier it calls as a parameter that may itself fail to
  return, so that a theorem can say that a call does not reach it. Each \<^verbatim>\<open>&&\<close>
  evaluates its right side only when its left side is true; \<open>c1\<close> and \<open>c3\<close> are the
  conditions of the second and the fourth \<^verbatim>\<open>if\<close>.
\<close>

definition Verify_with ::
    "(Listener \<Rightarrow> string exec) \<Rightarrow> ListenerFilter \<Rightarrow> Listener \<Rightarrow> bool exec" where
  "Verify_with classify f listener =
     (if Address f = [] \<and> Port f = 0 \<and> Type f = [] then Return True
      else
        bind_exec
          (if Address f \<noteq> []
           then bind_exec (retrieveListenerAddress listener)
                  (\<lambda>a. Return (\<not> EqualFold a (Address f)))
           else Return False)
          (\<lambda>c1.
            if c1 then Return False
            else if Port f \<noteq> 0 \<and> retrieveListenerPort listener \<noteq> Port f then Return False
            else
              bind_exec
                (if Type f \<noteq> []
                 then bind_exec (classify listener) (\<lambda>t. Return (\<not> EqualFold t (Type f)))
                 else Return False)
                (\<lambda>c3. if c3 then Return False else Return True)))"

definition Verify :: "ListenerFilter \<Rightarrow> Listener \<Rightarrow> bool exec" where
  "Verify = Verify_with (\<lambda>l. Return (retrieveListenerType l))"

subsection \<open>The config dump\<close>

text \<open>
  The listener section of a config dump (\<^verbatim>\<open>adminapi.ListenersConfigDump\<close>), with the
  fields the code reads: a dynamic entry has an active state, which has a listener
  payload; a static entry has a listener payload; every pointer may be nil.
\<close>

record DynamicListenerState =
  DynamicListenerState_Listener :: "Any option"

record DynamicListener =
  ActiveState :: "DynamicListenerState option"

record StaticListener =
  StaticListener_Listener :: "Any option"

record ListenersConfigDump =
  DynamicListeners :: "DynamicListener list"
  StaticListeners :: "StaticListener list"

text \<open>
  Modelled from the spec: the type \<^verbatim>\<open>configdump.Wrapper\<close> and its method
  \<^verbatim>\<open>GetListenerConfigDump\<close> are in \<^verbatim>\<open>istioctl/pkg/util/configdump\<close>, which is not
  among the sources. By the spec the dump either exposes its listener section or the
  retrieval fails; a wrapper is represented by what the method returns on it.
\<close>

datatype Wrapper = Wrapper "string + ListenersConfigDump"

fun GetListenerConfigDump :: "Wrapper \<Rightarrow> string + ListenersConfigDump" where
  "GetListenerConfigDump (Wrapper r) = r"

text \<open>
  \<^verbatim>\<open>ConfigWriter\<close>: the output sink, as the bytes written to it so far (a sink in
  memory, whose writes do not fail), and the config dump, nil until the writer is primed.
\<close>

record ConfigWriter =
  Stdout :: string
  configDump :: "Wrapper option"

text \<open>
  The errors the file makes with \<^verbatim>\<open>fmt.Errorf\<close>, and their messages. An error that
  wraps another one carries the other one's message.
\<close>

datatype error =
    NotPrimed
  | ListenerDump string
  | UnmarshalListener string
  | NoListeners
  | MarshalListeners string

fun Error :: "error \<Rightarrow> string" where
  "Error NotPrimed = ''config writer has not been primed''"
| "Error (ListenerDump e) = ''listener dump: '' @ e"
| "Error (UnmarshalListener e) = ''unmarshal listener: '' @ e"
| "Error NoListeners = ''no listeners found''"
| "Error (MarshalListeners e) = ''failed to marshal listeners: '' @ e"

subsection \<open>Extraction\<close>

text \<open>
  \<^verbatim>\<open>ptypes.UnmarshalAny\<close> into a fresh listener is a library function over the
  protobuf wire format; it is the parameter \<open>unm\<close> of everything below, from the payload
  to the decoder's error message or the decoded listener. The code first overwrites the
  payload's type URL. The dump is decoded afresh by every call of
  \<^verbatim>\<open>GetListenerConfigDump\<close>, so the overwriting is seen by the decoder only.
\<close>

type_synonym unmarshal = "Any \<Rightarrow> string + Listener"

text \<open>The first loop, over the dynamic entries; \<open>listeners\<close> is the slice built so far.\<close>

fun dynamicLoop :: "unmarshal \<Rightarrow> DynamicListener list \<Rightarrow> Listener list \<Rightarrow> error + Listener list" where
  "dynamicLoop unm [] listeners = Inr listeners"
| "dynamicLoop unm (l # rest) listeners =
     (case ActiveState l of
        None \<Rightarrow> dynamicLoop unm rest listeners
      | Some st \<Rightarrow>
          (case DynamicListenerState_Listener st of
             None \<Rightarrow> dynamicLoop unm rest listeners
           | Some a \<Rightarrow>
               (case unm (a\<lparr>TypeUrl := ListenerType\<rparr>) of
                  Inl err \<Rightarrow> Inl (UnmarshalListener err)
                | Inr listenerTyped \<Rightarrow> dynamicLoop unm rest (listeners @ [listenerTyped]))))"

text \<open>The second loop, over the static entries.\<close>

fun staticLoop :: "unmarshal \<Rightarrow> StaticListener list \<Rightarrow> Listener list \<Rightarrow> error + Listener list" where
  "staticLoop unm [] listeners = Inr listeners"
| "staticLoop unm (l # rest) listeners =
     (case StaticListener_Listener l of
        None \<Rightarrow> staticLoop unm rest listeners
      | Some a \<Rightarrow>
          (case unm (a\<lparr>TypeUrl := ListenerType\<rparr>) of
             Inl err \<Rightarrow> Inl (UnmarshalListener err)
           | Inr listenerTyped \<Rightarrow> staticLoop unm rest (listeners @ [listenerTyped])))"

definition retrieveSortedListenerSlice :: "unmarshal \<Rightarrow> ConfigWriter \<Rightarrow> error + Listener list" where
  "retrieveSortedListenerSlice unm c =
     (case configDump c of
        None \<Rightarrow> Inl NotPrimed
      | Some w \<Rightarrow>
          (case GetListenerConfigDump w of
             Inl err \<Rightarrow> Inl (ListenerDump err)
           | Inr listenerDump \<Rightarrow>
               (case dynamicLoop unm (DynamicListeners listenerDump) [] of
                  Inl err \<Rightarrow> Inl err
                | Inr dyn \<Rightarrow>
                    (case staticLoop unm (StaticListeners listenerDump) dyn of
                       Inl err \<Rightarrow> Inl err
                     | Inr listeners \<Rightarrow>
                         if length listeners = 0 then Inl NoListeners else Inr listeners))))"

text \<open>
  \<^verbatim>\<open>setupListenerConfigWriter\<close>: the listeners, and a new tabwriter on the sink. The
  tabwriter is the text written to it and not yet laid out; a new one is empty.
\<close>

definition setupListenerConfigWriter ::
    "unmarshal \<Rightarrow> ConfigWriter \<Rightarrow> error + (string \<times> Listener list)" where
  "setupListenerConfigWriter unm c =
     (case retrieveSortedListenerSlice unm c of
        Inl err \<Rightarrow> Inl err
      | Inr listeners \<Rightarrow> Inr ([], listeners))"

subsection \<open>The two printers\<close>

definition TAB :: char where
  "TAB = CHR 0x09"

definition NL :: char where
  "NL = CHR 0x0A"

text \<open>The loop of \<^verbatim>\<open>PrintListenerSummary\<close>; \<open>w\<close> is the text written to the tabwriter.\<close>

fun summaryLoop :: "ListenerFilter \<Rightarrow> Listener list \<Rightarrow> string \<Rightarrow> string exec" where
  "summaryLoop f [] w = Return w"
| "summaryLoop f (listener # rest) w =
     bind_exec (Verify f listener) (\<lambda>ok.
       if ok then
         bind_exec (retrieveListenerAddress listener) (\<lambda>address.
           let port = retrieveListenerPort listener;
               listenerType = retrieveListenerType listener
           in summaryLoop f rest
                (w @ address @ [TAB] @ FormatUint (unat port) @ [TAB] @ listenerType @ [NL]))
       else summaryLoop f rest w)"

text \<open>
  \<^verbatim>\<open>PrintListenerSummary\<close>: the writer after the call and the error returned (\<open>None\<close>
  is nil), unless the call panics. \<^verbatim>\<open>w.Flush()\<close> lays the text out in columns and
  writes it to the sink; the layout is that of the library's tabwriter and is the
  parameter \<open>layout\<close>, from the text written to the tabwriter to the bytes that reach
  the sink.
\<close>

definition PrintListenerSummary ::
    "(string \<Rightarrow> string) \<Rightarrow> unmarshal \<Rightarrow> ConfigWriter \<Rightarrow> ListenerFilter
       \<Rightarrow> (ConfigWriter \<times> error option) exec" where
  "PrintListenerSummary layout unm c f =
     (case setupListenerConfigWriter unm c of
        Inl err \<Rightarrow> Return (c, Some err)
      | Inr (w, listeners) \<Rightarrow>
          bind_exec (summaryLoop f listeners (w @ ''ADDRESS'' @ [TAB] @ ''PORT'' @ [TAB] @ ''TYPE'' @ [NL]))
            (\<lambda>w'. Return (c\<lparr>Stdout := Stdout c @ layout w'\<rparr>, None)))"

text \<open>The loop of \<^verbatim>\<open>PrintListenerDump\<close>.\<close>

fun dumpLoop :: "ListenerFilter \<Rightarrow> Listener list \<Rightarrow> Listener list \<Rightarrow> Listener list exec" where
  "dumpLoop f [] filteredListeners = Return filteredListeners"
| "dumpLoop f (listener # rest) filteredListeners =
     bind_exec (Verify f listener) (\<lambda>ok.
       if ok then dumpLoop f rest (filteredListeners @ [listener])
       else dumpLoop f rest filteredListeners)"

text \<open>
  \<^verbatim>\<open>PrintListenerDump\<close>. \<^verbatim>\<open>json.MarshalIndent\<close> on a \<^verbatim>\<open>protio.MessageSlice\<close> is the
  parameter \<open>marshal\<close>, from the slice, the prefix and the indent to the serializer's
  error message or the bytes.
\<close>

type_synonym marshalIndent = "Listener list \<Rightarrow> string \<Rightarrow> string \<Rightarrow> string + string"

definition PrintListenerDump ::
    "marshalIndent \<Rightarrow> unmarshal \<Rightarrow> ConfigWriter \<Rightarrow> ListenerFilter
       \<Rightarrow> (ConfigWriter \<times> error option) exec" where
  "PrintListenerDump marshal unm c f =
     (case setupListenerConfigWriter unm c of
        Inl err \<Rightarrow> Return (c, Some err)
      | Inr (w, listeners) \<Rightarrow>
          bind_exec (dumpLoop f listeners [])
            (\<lambda>filteredListeners.
               case marshal filteredListeners [] ''    '' of
                 Inl err \<Rightarrow> Return (c, Some (MarshalListeners err))
               | Inr out \<Rightarrow> Return (c\<lparr>Stdout := Stdout c @ out @ [NL]\<rparr>, None)))"

subsection \<open>The classifier, as the specification words it\<close>

text \<open>All filters of all filter chains, in order.\<close>

definition allFilters :: "Listener \<Rightarrow> Filter list" where
  "allFilters l = concat (map Filters (FilterChains l))"

definition isBlackHole :: "Filter \<Rightarrow> bool" where
  "isBlackHole f = Contains (GetValue (TypedConfig f)) BlackHoleCluster"

definition http_count :: "Listener \<Rightarrow> nat" where
  "http_count l = length (filter (\<lambda>f. Name f = HTTPListener) (allFilters l))"

definition tcp_count :: "Listener \<Rightarrow> nat" where
  "tcp_count l =
     length (filter (\<lambda>f. Name f = TCPListener \<and> \<not> isBlackHole f) (allFilters l))"

definition decision_table :: "nat \<Rightarrow> nat \<Rightarrow> string" where
  "decision_table h t =
     (if h > 0 \<and> t = 0 then ''HTTP''
      else if h > 0 \<and> t > 0 then ''HTTP+TCP''
      else if h = 0 \<and> t > 0 then ''TCP''
      else ''UNKNOWN'')"

text \<open>The listener without its TCP proxy filters that point at the black-hole cluster.\<close>

definition dropBlackHoles :: "Listener \<Rightarrow> Listener" where
  "dropBlackHoles l =
     l\<lparr>FilterChains :=
         map (\<lambda>fc. fc\<lparr>Filters := filter (\<lambda>f. \<not> (Name f = TCPListener \<and> isBlackHole f)) (Filters fc)\<rparr>)
           (FilterChains l)\<rparr>"

subsection \<open>Extraction, as the specification words it\<close>

text \<open>
  The payload a dynamic entry carries (none when its active state or the payload in it
  is nil), the payloads of each section in the order of the section, and the payloads
  of the dump: the dynamic ones, then the static ones.
\<close>

definition activePayload :: "DynamicListener \<Rightarrow> Any option" where
  "activePayload l =
     (case ActiveState l of None \<Rightarrow> None | Some st \<Rightarrow> DynamicListenerState_Listener st)"

definition dynamic_payloads :: "ListenersConfigDump \<Rightarrow> Any list" where
  "dynamic_payloads ld = List.map_filter activePayload (DynamicListeners ld)"

definition static_payloads :: "ListenersConfigDump \<Rightarrow> Any list" where
  "static_payloads ld = List.map_filter StaticListener_Listener (StaticListeners ld)"

definition payloads :: "ListenersConfigDump \<Rightarrow> Any list" where
  "payloads ld = dynamic_payloads ld @ static_payloads ld"

text \<open>Decoding one payload: the type URL is set to the canonical one first.\<close>

definition decode :: "unmarshal \<Rightarrow> Any \<Rightarrow> string + Listener" where
  "decode unm a = unm (a\<lparr>TypeUrl := ListenerType\<rparr>)"

text \<open>
  Decoding a list of payloads: the decoded listeners in the order of the payloads, or
  the error of the first payload that does not decode.
\<close>

fun decode_all :: "unmarshal \<Rightarrow> Any list \<Rightarrow> string + Listener list" where
  "decode_all unm [] = Inr []"
| "decode_all unm (a # rest) =
     (case decode unm a of
        Inl err \<Rightarrow> Inl err
      | Inr l \<Rightarrow> (case decode_all unm rest of Inl err \<Rightarrow> Inl err | Inr ls \<Rightarrow> Inr (l # ls)))"

text \<open>An entry carries a payload.\<close>

definition dynamicHasPayload :: "DynamicListener \<Rightarrow> bool" where
  "dynamicHasPayload l = (activePayload l \<noteq> None)"

definition staticHasPayload :: "StaticListener \<Rightarrow> bool" where
  "staticHasPayload l = (StaticListener_Listener l \<noteq> None)"

text \<open>The dump without the entries that carry no payload.\<close>

definition dropPayloadless :: "ListenersConfigDump \<Rightarrow> ListenersConfigDump" where
  "dropPayloadless ld =
     ld\<lparr>DynamicListeners := filter dynamicHasPayload (DynamicListeners ld),
        StaticListeners := filter staticHasPayload (StaticListeners ld)\<rparr>"

subsection \<open>The filter and the printers, as the specification words them\<close>

text \<open>
  The three checks of a filter on a listener: a check on an unset field passes; the
  address check passes when the listener has a socket address that equals the filter's
  up to case.
\<close>

definition addressCheck :: "ListenerFilter \<Rightarrow> Listener \<Rightarrow> bool" where
  "addressCheck f l =
     (Address f = [] \<or>
      (case GetSocketAddress (Listener_Address l) of
         None \<Rightarrow> False
       | Some s \<Rightarrow> EqualFold (SocketAddress_Address s) (Address f)))"

definition portCheck :: "ListenerFilter \<Rightarrow> Listener \<Rightarrow> bool" where
  "portCheck f l = (Port f = 0 \<or> retrieveListenerPort l = Port f)"

definition typeCheck :: "ListenerFilter \<Rightarrow> Listener \<Rightarrow> bool" where
  "typeCheck f l = (Type f = [] \<or> EqualFold (retrieveListenerType l) (Type f))"

definition matches :: "ListenerFilter \<Rightarrow> Listener \<Rightarrow> bool" where
  "matches f l = (addressCheck f l \<and> portCheck f l \<and> typeCheck f l)"

definition hasSocketAddress :: "Listener \<Rightarrow> bool" where
  "hasSocketAddress l = (GetSocketAddress (Listener_Address l) \<noteq> None)"

text \<open>The header line and the row of a listener that has a socket address.\<close>

definition header :: string where
  "header = ''ADDRESS'' @ [TAB] @ ''PORT'' @ [TAB] @ ''TYPE'' @ [NL]"

definition row :: "Listener \<Rightarrow> string" where
  "row l =
     (case GetSocketAddress (Listener_Address l) of
        None \<Rightarrow> []
      | Some s \<Rightarrow>
          SocketAddress_Address s @ [TAB] @ FormatUint (unat (retrieveListenerPort l)) @ [TAB]
            @ retrieveListenerType l @ [NL])"

subsection \<open>Example data\<close>

text \<open>
  The scenario of the specification: a dynamic listener at 10.0.0.1:8080 with an HTTP
  filter and a static listener at 10.0.0.2:9000 with a TCP proxy filter; and a listener
  bound to a Unix domain socket.
\<close>

definition http_filter :: Filter where
  "http_filter = \<lparr>Name = ''envoy.http_connection_manager'', TypedConfig = None\<rparr>"

definition tcp_filter :: Filter where
  "tcp_filter =
     \<lparr>Name = ''envoy.tcp_proxy'',
      TypedConfig = Some \<lparr>TypeUrl = ''tcp_proxy'', Value = ''cluster: outbound|9000||db''\<rparr>\<rparr>"

definition blackhole_filter :: Filter where
  "blackhole_filter =
     \<lparr>Name = ''envoy.tcp_proxy'',
      TypedConfig = Some \<lparr>TypeUrl = ''tcp_proxy'', Value = ''cluster: BlackHoleCluster''\<rparr>\<rparr>"

definition listener_http :: Listener where
  "listener_http =
     \<lparr>Listener_Name = ''web'',
      Listener_Address = Some (Address_SocketAddress
        \<lparr>SocketAddress_Address = ''10.0.0.1'', PortSpecifier = Some (PortValue 8080)\<rparr>),
      FilterChains = [\<lparr>Filters = [http_filter]\<rparr>]\<rparr>"

definition listener_tcp :: Listener where
  "listener_tcp =
     \<lparr>Listener_Name = ''db'',
      Listener_Address = Some (Address_SocketAddress
        \<lparr>SocketAddress_Address = ''10.0.0.2'', PortSpecifier = Some (PortValue 9000)\<rparr>),
      FilterChains = [\<lparr>Filters = [tcp_filter]\<rparr>]\<rparr>"

definition listener_both :: Listener where
  "listener_both =
     \<lparr>Listener_Name = ''mixed'',
      Listener_Address = Some (Address_SocketAddress
        \<lparr>SocketAddress_Address = ''0.0.0.0'', PortSpecifier = Some (PortValue 15001)\<rparr>),
      FilterChains = [\<lparr>Filters = [http_filter]\<rparr>, \<lparr>Filters = [tcp_filter]\<rparr>]\<rparr>"

definition listener_blackhole :: Listener where
  "listener_blackhole =
     \<lparr>Listener_Name = ''passthrough'',
      Listener_Address = Some (Address_SocketAddress
        \<lparr>SocketAddress_Address = ''0.0.0.0'', PortSpecifier = Some (PortValue 15001)\<rparr>),
      FilterChains = [\<lparr>Filters = [blackhole_filter, blackhole_filter]\<rparr>, \<lparr>Filters = [blackhole_filter]\<rparr>]\<rparr>"

definition listener_pipe :: Listener where
  "listener_pipe =
     \<lparr>Listener_Name = ''uds'',
      Listener_Address = Some (Address_Pipe ''/var/run/app.sock''),
      FilterChains = [\<lparr>Filters = [tcp_filter]\<rparr>]\<rparr>"

text \<open>
  A decoder for the examples: it refuses a payload whose type URL is not the canonical
  one, knows three payloads by their bytes, and fails on every other one with the
  bytes as the message.
\<close>

definition decode_example :: unmarshal where
  "decode_example a =
     (if TypeUrl a \<noteq> ListenerType then Inl ''mismatched message type''
      else if Value a = ''web'' then Inr listener_http
      else if Value a = ''db'' then Inr listener_tcp
      else if Value a = ''uds'' then Inr listener_pipe
      else Inl (''cannot parse '' @ Value a))"

definition dynamic_entry :: "string \<Rightarrow> DynamicListener" where
  "dynamic_entry bytes =
     \<lparr>ActiveState = Some \<lparr>DynamicListenerState_Listener =
        Some \<lparr>TypeUrl = ''type.googleapis.com/envoy.api.v2.Listener'', Value = bytes\<rparr>\<rparr>\<rparr>"

definition static_entry :: "string \<Rightarrow> StaticListener" where
  "static_entry bytes =
     \<lparr>StaticListener_Listener =
        Some \<lparr>TypeUrl = ''type.googleapis.com/envoy.api.v2.Listener'', Value = bytes\<rparr>\<rparr>"

definition writer_of :: "ListenersConfigDump \<Rightarrow> ConfigWriter" where
  "writer_of ld = \<lparr>Stdout = [], configDump = Some (Wrapper (Inr ld))\<rparr>"

definition scenario :: ListenersConfigDump where
  "scenario = \<lparr>DynamicListeners = [dynamic_entry ''web''], StaticListeners = [static_entry ''db'']\<rparr>"

text \<open>
  A dump whose listeners come out in an order that is sorted by no field, a dump with
  two payloads that do not decode, a dump whose entries carry no payload, and a dump
  with the listener on the Unix domain socket.
\<close>

definition unsorted_dump :: ListenersConfigDump where
  "unsorted_dump =
     \<lparr>DynamicListeners = [dynamic_entry ''web'', dynamic_entry ''db''],
      StaticListeners = [static_entry ''uds'', static_entry ''db'']\<rparr>"

definition broken_dump :: ListenersConfigDump where
  "broken_dump =
     \<lparr>DynamicListeners = [dynamic_entry ''web'', dynamic_entry ''junk'', dynamic_entry ''trash''],
      StaticListeners = [static_entry ''db'']\<rparr>"

definition sparse_dump :: ListenersConfigDump where
  "sparse_dump =
     \<lparr>DynamicListeners =
        [\<lparr>ActiveState = None\<rparr>, \<lparr>ActiveState = Some \<lparr>DynamicListenerState_Listener = None\<rparr>\<rparr>],
      StaticListeners = [\<lparr>StaticListener_Listener = None\<rparr>]\<rparr>"

definition pipe_dump :: ListenersConfigDump where
  "pipe_dump = \<lparr>DynamicListeners = [dynamic_entry ''uds''], StaticListeners = []\<rparr>"

section \<open>Properties\<close>

subsection \<open>Classifier\<close>

lemma HTTPListener_neq_TCPListener: "HTTPListener \<noteq> TCPListener"
  by (simp add: HTTPListener_def TCPListener_def)

lemma countFilter_counts:
  "countFilter f (h, t) =
     (h + (if Name f = HTTPListener then 1 else 0),
      t + (if Name f = TCPListener \<and> \<not> isBlackHole f then 1 else 0))"
  using HTTPListener_neq_TCPListener by (auto simp: countFilter_def isBlackHole_def)

lemma fold_countFilter:
  "fold countFilter fs (h, t) =
     (h + length (filter (\<lambda>f. Name f = HTTPListener) fs),
      t + length (filter (\<lambda>f. Name f = TCPListener \<and> \<not> isBlackHole f) fs))"
  by (induction fs arbitrary: h t) (simp_all add: countFilter_counts)

lemma fold_chains:
  "fold (\<lambda>fc. fold countFilter (Filters fc)) cs (h, t) =
     (h + length (filter (\<lambda>f. Name f = HTTPListener) (concat (map Filters cs))),
      t + length (filter (\<lambda>f. Name f = TCPListener \<and> \<not> isBlackHole f)
                    (concat (map Filters cs))))"
  by (induction cs arbitrary: h t) (simp_all add: fold_countFilter)

lemma countFilters_eq: "countFilters l = (http_count l, tcp_count l)"
  by (simp add: countFilters_def fold_chains http_count_def tcp_count_def allFilters_def)

text \<open>
  C1. For every listener the classifier returns the label the decision table gives for
  the two counters, where the HTTP counter is the number of filters named
  \<^verbatim>\<open>envoy.http_connection_manager\<close> and the TCP counter is the number of filters
  named \<^verbatim>\<open>envoy.tcp_proxy\<close> whose typed configuration does not contain the black-hole
  marker, over all filters of all filter chains; the label is one of the four, and the
  function is total.
\<close>

theorem retrieveListenerType_decision_table:
  "retrieveListenerType l = decision_table (http_count l) (tcp_count l)
   \<and> retrieveListenerType l \<in> {''HTTP'', ''HTTP+TCP'', ''TCP'', ''UNKNOWN''}"
proof -
  have "retrieveListenerType l = decision_table (http_count l) (tcp_count l)"
    by (simp add: retrieveListenerType_def countFilters_eq decision_table_def)
  moreover have "decision_table h t \<in> {''HTTP'', ''HTTP+TCP'', ''TCP'', ''UNKNOWN''}" for h t
    by (simp add: decision_table_def)
  ultimately show ?thesis by simp
qed

text \<open>
  The scenario of the specification: one filter chain with an HTTP filter and another
  with a TCP proxy filter to a real cluster give \<^verbatim>\<open>HTTP+TCP\<close>.
\<close>

theorem retrieveListenerType_decision_table_witness:
  "retrieveListenerType listener_both = ''HTTP+TCP'' \<and> http_count listener_both = 1 \<and>
   tcp_count listener_both = 1"
proof -
  have a: "allFilters listener_both = [http_filter, tcp_filter]"
    by (simp add: allFilters_def listener_both_def)
  have h: "http_count listener_both = 1"
    by (simp add: http_count_def a http_filter_def tcp_filter_def HTTPListener_def)
  have "\<not> isBlackHole tcp_filter"
    by (simp add: isBlackHole_def tcp_filter_def GetValue_def BlackHoleCluster_def)
  then have t: "tcp_count listener_both = 1"
    by (simp add: tcp_count_def a http_filter_def tcp_filter_def TCPListener_def)
  from retrieveListenerType_decision_table [of listener_both] h t
  show ?thesis by (simp add: decision_table_def)
qed

lemma allFilters_dropBlackHoles:
  "allFilters (dropBlackHoles l) =
     filter (\<lambda>f. \<not> (Name f = TCPListener \<and> isBlackHole f)) (allFilters l)"
  by (simp add: allFilters_def dropBlackHoles_def filter_concat comp_def)

lemma counts_dropBlackHoles:
  "http_count (dropBlackHoles l) = http_count l" "tcp_count (dropBlackHoles l) = tcp_count l"
proof -
  have "\<And>f. (\<not> (Name f = TCPListener \<and> isBlackHole f) \<and> Name f = HTTPListener) = (Name f = HTTPListener)"
    using HTTPListener_neq_TCPListener by auto
  then show "http_count (dropBlackHoles l) = http_count l"
    by (simp add: http_count_def allFilters_dropBlackHoles)
  have "\<And>f. (\<not> (Name f = TCPListener \<and> isBlackHole f) \<and> Name f = TCPListener \<and> \<not> isBlackHole f)
      = (Name f = TCPListener \<and> \<not> isBlackHole f)"
    by auto
  then show "tcp_count (dropBlackHoles l) = tcp_count l"
    by (simp add: tcp_count_def allFilters_dropBlackHoles)
qed

lemma tcp_count_zero:
  "\<forall>g\<in>set (allFilters l). Name g = TCPListener \<longrightarrow> isBlackHole g \<Longrightarrow> tcp_count l = 0"
  by (auto simp: tcp_count_def filter_empty_conv)

text \<open>
  C2. A filter named with the TCP proxy identifier whose typed configuration contains
  the black-hole marker leaves both counters as they are; so the counters and the label
  of a listener are those of the listener without such filters, however many it has;
  and a listener whose TCP proxy filters all point at the black-hole cluster has a TCP
  counter of zero and is labelled \<^verbatim>\<open>UNKNOWN\<close> when it has no HTTP filter (\<^verbatim>\<open>HTTP\<close> when it
  has one).
\<close>

theorem blackhole_filters_not_counted:
  "(Name f = TCPListener \<and> isBlackHole f \<longrightarrow> countFilter f (nHTTP, nTCP) = (nHTTP, nTCP)) \<and>
   countFilters (dropBlackHoles l) = countFilters l \<and>
   retrieveListenerType (dropBlackHoles l) = retrieveListenerType l \<and>
   ((\<forall>g\<in>set (allFilters l). Name g = TCPListener \<longrightarrow> isBlackHole g) \<longrightarrow>
      snd (countFilters l) = 0 \<and>
      retrieveListenerType l = (if fst (countFilters l) > 0 then ''HTTP'' else ''UNKNOWN''))"
proof -
  have 1: "Name f = TCPListener \<and> isBlackHole f \<longrightarrow> countFilter f (nHTTP, nTCP) = (nHTTP, nTCP)"
    using HTTPListener_neq_TCPListener by (simp add: countFilter_counts)
  have 2: "countFilters (dropBlackHoles l) = countFilters l"
    by (simp add: countFilters_eq counts_dropBlackHoles)
  have 3: "retrieveListenerType (dropBlackHoles l) = retrieveListenerType l"
    by (simp add: retrieveListenerType_def 2)
  have 4: "snd (countFilters l) = 0 \<and>
      retrieveListenerType l = (if fst (countFilters l) > 0 then ''HTTP'' else ''UNKNOWN'')"
    if "\<forall>g\<in>set (allFilters l). Name g = TCPListener \<longrightarrow> isBlackHole g"
    using tcp_count_zero [OF that] by (simp add: retrieveListenerType_def countFilters_eq)
  from 1 2 3 4 show ?thesis by blast
qed

lemma isBlackHole_blackhole_filter: "isBlackHole blackhole_filter"
  by (simp add: isBlackHole_def blackhole_filter_def GetValue_def BlackHoleCluster_def)

lemma allFilters_listener_blackhole:
  "allFilters listener_blackhole = [blackhole_filter, blackhole_filter, blackhole_filter]"
  by (simp add: allFilters_def listener_blackhole_def)

lemma http_count_listener_blackhole: "http_count listener_blackhole = 0"
  by (simp add: http_count_def allFilters_listener_blackhole blackhole_filter_def HTTPListener_def)

text \<open>Three black-hole TCP proxy filters in two filter chains: \<^verbatim>\<open>UNKNOWN\<close>.\<close>

theorem blackhole_filters_not_counted_witness:
  "Name blackhole_filter = TCPListener \<and> isBlackHole blackhole_filter \<and>
   countFilter blackhole_filter (0, 0) = (0, 0) \<and>
   allFilters listener_blackhole = [blackhole_filter, blackhole_filter, blackhole_filter] \<and>
   countFilters listener_blackhole = (0, 0) \<and>
   retrieveListenerType listener_blackhole = ''UNKNOWN''"
proof -
  have n: "Name blackhole_filter = TCPListener"
    by (simp add: blackhole_filter_def TCPListener_def)
  have h: "\<forall>g\<in>set (allFilters listener_blackhole). Name g = TCPListener \<longrightarrow> isBlackHole g"
    by (simp add: allFilters_listener_blackhole isBlackHole_blackhole_filter)
  have z: "fst (countFilters listener_blackhole) = 0"
    by (simp add: countFilters_eq http_count_listener_blackhole)
  note t = blackhole_filters_not_counted [of blackhole_filter 0 0 listener_blackhole]
  from t n isBlackHole_blackhole_filter have a: "countFilter blackhole_filter (0, 0) = (0, 0)"
    by blast
  from t h have b: "snd (countFilters listener_blackhole) = 0"
    and c: "retrieveListenerType listener_blackhole =
      (if fst (countFilters listener_blackhole) > 0 then ''HTTP'' else ''UNKNOWN'')"
    by blast+
  from z b have d: "countFilters listener_blackhole = (0, 0)"
    by (simp add: prod_eq_iff)
  from c z have e: "retrieveListenerType listener_blackhole = ''UNKNOWN''" by simp
  from n isBlackHole_blackhole_filter a allFilters_listener_blackhole d e show ?thesis by blast
qed

subsection \<open>Extraction\<close>

text \<open>
  The two loops decode the payloads in order and stop at the first error; the whole
  extraction is a function of the payloads of the dump.
\<close>

lemma decode_all_append:
  "decode_all unm (xs @ ys) =
     (case decode_all unm xs of
        Inl e \<Rightarrow> Inl e
      | Inr a \<Rightarrow> (case decode_all unm ys of Inl e \<Rightarrow> Inl e | Inr b \<Rightarrow> Inr (a @ b)))"
  by (induction xs) (auto split: sum.splits)

lemma dynamicLoop_eq:
  "dynamicLoop unm ds acc =
     (case decode_all unm (List.map_filter activePayload ds) of
        Inl e \<Rightarrow> Inl (UnmarshalListener e)
      | Inr ls \<Rightarrow> Inr (acc @ ls))"
proof (induction ds arbitrary: acc)
  case Nil
  show ?case by simp
next
  case (Cons d ds)
  show ?case
    by (simp add: activePayload_def decode_def Cons.IH split: option.splits sum.splits)
qed

lemma staticLoop_eq:
  "staticLoop unm ds acc =
     (case decode_all unm (List.map_filter StaticListener_Listener ds) of
        Inl e \<Rightarrow> Inl (UnmarshalListener e)
      | Inr ls \<Rightarrow> Inr (acc @ ls))"
proof (induction ds arbitrary: acc)
  case Nil
  show ?case by simp
next
  case (Cons d ds)
  show ?case
    by (simp add: decode_def Cons.IH split: option.splits sum.splits)
qed

lemma retrieveSortedListenerSlice_eq:
  "retrieveSortedListenerSlice unm c =
     (case configDump c of
        None \<Rightarrow> Inl NotPrimed
      | Some w \<Rightarrow>
          (case GetListenerConfigDump w of
             Inl e \<Rightarrow> Inl (ListenerDump e)
           | Inr ld \<Rightarrow>
               (case decode_all unm (payloads ld) of
                  Inl e \<Rightarrow> Inl (UnmarshalListener e)
                | Inr ls \<Rightarrow> if ls = [] then Inl NoListeners else Inr ls)))"
  by (simp add: retrieveSortedListenerSlice_def dynamicLoop_eq staticLoop_eq payloads_def
      dynamic_payloads_def static_payloads_def decode_all_append
      split: option.splits sum.splits)

lemma decode_all_Inr_iff:
  "decode_all unm xs = Inr ls \<longleftrightarrow> map (decode unm) xs = map Inr ls"
proof (induction xs arbitrary: ls)
  case Nil
  show ?case by auto
next
  case (Cons a xs)
  show ?case
  proof (cases "decode unm a")
    case (Inl e)
    then show ?thesis by (cases ls) auto
  next
    case (Inr l)
    show ?thesis
    proof (cases "decode_all unm xs")
      case (Inl e)
      have "\<And>ls'. map (decode unm) xs \<noteq> map Inr ls'"
        using Cons.IH Inl by (metis sum.distinct(1))
      with Inl Inr show ?thesis by (cases ls) auto
    next
      case (Inr ls')
      then have "map (decode unm) xs = map Inr ls'" using Cons.IH by simp
      with Inr \<open>decode unm a = Inr l\<close> show ?thesis
        by (cases ls) (auto simp: inj_map_eq_map [OF inj_Inr])
    qed
  qed
qed

lemma decode_all_first_error:
  "\<forall>p\<in>set pre. \<exists>l. decode unm p = Inr l \<Longrightarrow> decode unm a = Inl e \<Longrightarrow>
   decode_all unm (pre @ a # post) = Inl e"
  by (induction pre) (auto split: sum.splits)

text \<open>The merged decoded collection is empty exactly when no entry carries a payload.\<close>

lemma decode_all_Nil_iff: "decode_all unm xs = Inr [] \<longleftrightarrow> xs = []"
  by (cases xs) (auto split: sum.splits)

text \<open>
  The two errors of C3 are told apart by their messages too: no other error of the file
  has the message of the not-primed error or of the no-listeners-found error.
\<close>

lemma Error_NotPrimed_iff: "Error e = Error NotPrimed \<longleftrightarrow> e = NotPrimed"
  by (cases e) simp_all

lemma Error_NoListeners_iff: "Error e = Error NoListeners \<longleftrightarrow> e = NoListeners"
  by (cases e) simp_all

lemmas example_dump_defs =
  payloads_def dynamic_payloads_def static_payloads_def dynamic_entry_def static_entry_def
  activePayload_def

lemma decode_example_simps:
  "decode decode_example \<lparr>TypeUrl = u, Value = ''web''\<rparr> = Inr listener_http"
  "decode decode_example \<lparr>TypeUrl = u, Value = ''db''\<rparr> = Inr listener_tcp"
  "decode decode_example \<lparr>TypeUrl = u, Value = ''uds''\<rparr> = Inr listener_pipe"
  "decode decode_example \<lparr>TypeUrl = u, Value = ''junk''\<rparr> = Inl ''cannot parse junk''"
  "decode decode_example \<lparr>TypeUrl = u, Value = ''trash''\<rparr> = Inl ''cannot parse trash''"
  by (simp_all add: decode_def decode_example_def)

lemma retrieve_scenario:
  "retrieveSortedListenerSlice decode_example (writer_of scenario) = Inr [listener_http, listener_tcp]"
  by (simp add: retrieveSortedListenerSlice_eq writer_of_def scenario_def example_dump_defs
      decode_example_simps)

text \<open>
  C3. Extraction fails with the not-primed error exactly when the config dump is nil; it
  fails with the no-listeners-found error exactly when the dump is there, its listener
  section is retrieved, and the merged decoded collection is empty; and a collection it
  returns is not empty.
\<close>

theorem retrieveSortedListenerSlice_errors:
  "(retrieveSortedListenerSlice unm c = Inl NotPrimed \<longleftrightarrow> configDump c = None) \<and>
   (retrieveSortedListenerSlice unm c = Inl NoListeners \<longleftrightarrow>
      (\<exists>w ld. configDump c = Some w \<and> GetListenerConfigDump w = Inr ld \<and>
         decode_all unm (payloads ld) = Inr [])) \<and>
   (\<forall>ls. retrieveSortedListenerSlice unm c = Inr ls \<longrightarrow> ls \<noteq> [])"
  by (auto simp: retrieveSortedListenerSlice_eq split: option.splits sum.splits)

text \<open>
  A writer that was never primed, a dump with no dynamic and no static entry, and the
  scenario of the specification.
\<close>

theorem retrieveSortedListenerSlice_errors_witness:
  "retrieveSortedListenerSlice decode_example \<lparr>Stdout = [], configDump = None\<rparr> = Inl NotPrimed \<and>
   retrieveSortedListenerSlice decode_example
     (writer_of \<lparr>DynamicListeners = [], StaticListeners = []\<rparr>) = Inl NoListeners \<and>
   retrieveSortedListenerSlice decode_example (writer_of scenario) = Inr [listener_http, listener_tcp] \<and>
   [listener_http, listener_tcp] \<noteq> []"
proof -
  have 1: "retrieveSortedListenerSlice decode_example \<lparr>Stdout = [], configDump = None\<rparr> = Inl NotPrimed"
    using retrieveSortedListenerSlice_errors [of decode_example "\<lparr>Stdout = [], configDump = None\<rparr>"]
    by simp
  have "decode_all decode_example (payloads \<lparr>DynamicListeners = [], StaticListeners = []\<rparr>) = Inr []"
    by (simp add: payloads_def dynamic_payloads_def static_payloads_def)
  then have 2: "retrieveSortedListenerSlice decode_example
     (writer_of \<lparr>DynamicListeners = [], StaticListeners = []\<rparr>) = Inl NoListeners"
    using retrieveSortedListenerSlice_errors
      [of decode_example "writer_of \<lparr>DynamicListeners = [], StaticListeners = []\<rparr>"]
    by (simp add: writer_of_def)
  have 3: "[listener_http, listener_tcp] \<noteq> []"
    using retrieveSortedListenerSlice_errors [of decode_example "writer_of scenario"]
      retrieve_scenario by blast
  from 1 2 3 retrieve_scenario show ?thesis by simp
qed

text \<open>
  C4. The collection extraction returns is the decoded dynamic payloads, in the order
  of the dynamic section, followed by the decoded static payloads, in the order of the
  static section; nothing is sorted.
\<close>

theorem retrieveSortedListenerSlice_order:
  assumes "retrieveSortedListenerSlice unm c = Inr ls"
  shows "\<exists>w ld. configDump c = Some w \<and> GetListenerConfigDump w = Inr ld \<and>
           map Inr ls = map (decode unm) (dynamic_payloads ld) @ map (decode unm) (static_payloads ld)"
  using assms
  by (auto simp: retrieveSortedListenerSlice_eq payloads_def decode_all_Inr_iff
      split: option.splits sum.splits if_splits)

text \<open>
  Two dynamic and two static entries come out in that order: by name \<^verbatim>\<open>web\<close>, \<^verbatim>\<open>db\<close>,
  \<^verbatim>\<open>uds\<close>, \<^verbatim>\<open>db\<close>, which is neither sorted nor free of duplicates.
\<close>

theorem retrieveSortedListenerSlice_order_witness:
  "retrieveSortedListenerSlice decode_example (writer_of unsorted_dump) =
     Inr [listener_http, listener_tcp, listener_pipe, listener_tcp] \<and>
   map Inr [listener_http, listener_tcp, listener_pipe, listener_tcp] =
     map (decode decode_example) (dynamic_payloads unsorted_dump) @
     map (decode decode_example) (static_payloads unsorted_dump) \<and>
   map Listener_Name [listener_http, listener_tcp, listener_pipe, listener_tcp] =
     [''web'', ''db'', ''uds'', ''db'']"
proof -
  have r: "retrieveSortedListenerSlice decode_example (writer_of unsorted_dump) =
     Inr [listener_http, listener_tcp, listener_pipe, listener_tcp]"
    by (simp add: retrieveSortedListenerSlice_eq writer_of_def unsorted_dump_def
        example_dump_defs decode_example_simps)
  from retrieveSortedListenerSlice_order [OF r] obtain w ld where
    w: "configDump (writer_of unsorted_dump) = Some w" "GetListenerConfigDump w = Inr ld"
    and m: "map Inr [listener_http, listener_tcp, listener_pipe, listener_tcp] =
      map (decode decode_example) (dynamic_payloads ld) @
      map (decode decode_example) (static_payloads ld)"
    by blast
  from w have "ld = unsorted_dump" by (auto simp: writer_of_def)
  with m r show ?thesis
    by (simp add: listener_http_def listener_tcp_def listener_pipe_def)
qed

lemma split_first_error:
  assumes "\<exists>a\<in>set xs. \<exists>e. decode unm a = Inl e"
  shows "\<exists>pre a post e. xs = pre @ a # post \<and> (\<forall>p\<in>set pre. \<exists>l. decode unm p = Inr l) \<and>
     decode unm a = Inl e"
proof -
  from assms have "\<exists>a\<in>set xs. isl (decode unm a)" by force
  then obtain pre a post where s: "xs = pre @ a # post" "isl (decode unm a)"
    "\<forall>p\<in>set pre. \<not> isl (decode unm p)"
    using split_list_first_prop [of xs "\<lambda>a. isl (decode unm a)"] by blast
  from s(2) obtain e where e: "decode unm a = Inl e" by (cases "decode unm a") auto
  have "\<forall>p\<in>set pre. \<exists>l. decode unm p = Inr l"
  proof
    fix p assume "p \<in> set pre"
    with s(3) have "\<not> isl (decode unm p)" by blast
    then show "\<exists>l. decode unm p = Inr l" by (cases "decode unm p") auto
  qed
  with s(1) e show ?thesis by blast
qed

lemma retrieve_first_error:
  assumes "configDump c = Some w" "GetListenerConfigDump w = Inr ld"
    "payloads ld = pre @ a # post" "\<forall>p\<in>set pre. \<exists>l. decode unm p = Inr l"
    "decode unm a = Inl e"
  shows "retrieveSortedListenerSlice unm c = Inl (UnmarshalListener e)"
  using assms by (simp add: retrieveSortedListenerSlice_eq decode_all_first_error)

text \<open>
  C5. When some payload of the dump does not decode, the payloads split at the first
  one that does not, and extraction returns the unmarshal error that wraps the error of
  that one: no collection is returned and no failing payload is passed over. Every dump
  that has the same payloads up to that one gives the same error, whatever follows it:
  the later entries are not looked at.
\<close>

theorem retrieveSortedListenerSlice_decode_error:
  assumes "configDump c = Some w" "GetListenerConfigDump w = Inr ld"
    "\<exists>a\<in>set (payloads ld). \<exists>e. decode unm a = Inl e"
  shows "\<exists>pre a post e.
           payloads ld = pre @ a # post \<and>
           (\<forall>p\<in>set pre. \<exists>l. decode unm p = Inr l) \<and>
           decode unm a = Inl e \<and>
           retrieveSortedListenerSlice unm c = Inl (UnmarshalListener e) \<and>
           (\<forall>c' w' ld' post'.
              configDump c' = Some w' \<and> GetListenerConfigDump w' = Inr ld' \<and>
              payloads ld' = pre @ a # post' \<longrightarrow>
              retrieveSortedListenerSlice unm c' = Inl (UnmarshalListener e))"
proof -
  from split_first_error [OF assms(3)] obtain pre a post e where
    s: "payloads ld = pre @ a # post" "\<forall>p\<in>set pre. \<exists>l. decode unm p = Inr l"
       "decode unm a = Inl e"
    by blast
  have "retrieveSortedListenerSlice unm c = Inl (UnmarshalListener e)"
    using retrieve_first_error [OF assms(1,2) s] .
  moreover have "\<forall>c' w' ld' post'.
      configDump c' = Some w' \<and> GetListenerConfigDump w' = Inr ld' \<and>
      payloads ld' = pre @ a # post' \<longrightarrow>
      retrieveSortedListenerSlice unm c' = Inl (UnmarshalListener e)"
    using retrieve_first_error [OF _ _ _ s(2,3)] by blast
  ultimately show ?thesis using s by blast
qed

text \<open>
  The second and the third of four payloads do not decode: the error is the second
  one's.
\<close>

theorem retrieveSortedListenerSlice_decode_error_witness:
  "\<exists>pre a post.
     payloads broken_dump = pre @ a # post \<and>
     decode decode_example a = Inl ''cannot parse junk'' \<and>
     retrieveSortedListenerSlice decode_example (writer_of broken_dump) =
       Inl (UnmarshalListener ''cannot parse junk'')"
proof -
  have p: "payloads broken_dump =
     [\<lparr>TypeUrl = ''type.googleapis.com/envoy.api.v2.Listener'', Value = ''web''\<rparr>,
      \<lparr>TypeUrl = ''type.googleapis.com/envoy.api.v2.Listener'', Value = ''junk''\<rparr>,
      \<lparr>TypeUrl = ''type.googleapis.com/envoy.api.v2.Listener'', Value = ''trash''\<rparr>,
      \<lparr>TypeUrl = ''type.googleapis.com/envoy.api.v2.Listener'', Value = ''db''\<rparr>]"
    by (simp add: broken_dump_def example_dump_defs)
  have h: "\<exists>a\<in>set (payloads broken_dump). \<exists>e. decode decode_example a = Inl e"
    by (simp add: p decode_example_simps)
  have c: "configDump (writer_of broken_dump) = Some (Wrapper (Inr broken_dump))"
    "GetListenerConfigDump (Wrapper (Inr broken_dump)) = Inr broken_dump"
    by (simp_all add: writer_of_def)
  from retrieveSortedListenerSlice_decode_error [OF c h] obtain pre a post e where
    s: "payloads broken_dump = pre @ a # post" "decode decode_example a = Inl e"
       "retrieveSortedListenerSlice decode_example (writer_of broken_dump) =
          Inl (UnmarshalListener e)"
    by blast
  have "retrieveSortedListenerSlice decode_example (writer_of broken_dump) =
          Inl (UnmarshalListener ''cannot parse junk'')"
    by (simp add: retrieveSortedListenerSlice_eq writer_of_def p decode_example_simps)
  with s(3) have "e = ''cannot parse junk''" by simp
  with s show ?thesis by blast
qed

lemma map_filter_filter_Some:
  "(\<And>x. h x \<longleftrightarrow> g x \<noteq> None) \<Longrightarrow> List.map_filter g (filter h xs) = List.map_filter g xs"
  by (induction xs) (auto split: option.splits)

lemma payloads_dropPayloadless: "payloads (dropPayloadless ld) = payloads ld"
proof -
  have "List.map_filter activePayload (filter dynamicHasPayload (DynamicListeners ld)) =
        List.map_filter activePayload (DynamicListeners ld)"
    by (rule map_filter_filter_Some) (simp add: dynamicHasPayload_def)
  moreover have "List.map_filter StaticListener_Listener (filter staticHasPayload (StaticListeners ld)) =
        List.map_filter StaticListener_Listener (StaticListeners ld)"
    by (rule map_filter_filter_Some) (simp add: staticHasPayload_def)
  ultimately show ?thesis
    by (simp add: payloads_def dynamic_payloads_def static_payloads_def dropPayloadless_def)
qed

lemma map_filter_all_None: "\<forall>x\<in>set xs. g x = None \<Longrightarrow> List.map_filter g xs = []"
  by (induction xs) auto

text \<open>
  C10. A dynamic entry whose active state or active payload is nil and a static entry
  whose payload is nil are skipped: extraction gives what it gives on the dump without
  them, be it a collection or an error; and on a dump whose entries all carry no payload
  it fails with the no-listeners-found error.
\<close>

theorem retrieveSortedListenerSlice_skips_payloadless:
  assumes "configDump c = Some (Wrapper (Inr ld))"
  shows "retrieveSortedListenerSlice unm c =
           retrieveSortedListenerSlice unm (c\<lparr>configDump := Some (Wrapper (Inr (dropPayloadless ld)))\<rparr>)
         \<and> ((\<forall>l\<in>set (DynamicListeners ld). \<not> dynamicHasPayload l) \<and>
            (\<forall>l\<in>set (StaticListeners ld). \<not> staticHasPayload l) \<longrightarrow>
            retrieveSortedListenerSlice unm c = Inl NoListeners)"
proof -
  have 1: "retrieveSortedListenerSlice unm c =
           retrieveSortedListenerSlice unm (c\<lparr>configDump := Some (Wrapper (Inr (dropPayloadless ld)))\<rparr>)"
    using assms by (simp add: retrieveSortedListenerSlice_eq payloads_dropPayloadless)
  have 2: "retrieveSortedListenerSlice unm c = Inl NoListeners"
    if "\<forall>l\<in>set (DynamicListeners ld). \<not> dynamicHasPayload l"
       "\<forall>l\<in>set (StaticListeners ld). \<not> staticHasPayload l"
  proof -
    have "payloads ld = []"
      using that
      by (simp add: payloads_def dynamic_payloads_def static_payloads_def
          dynamicHasPayload_def staticHasPayload_def map_filter_all_None)
    then show ?thesis using assms by (simp add: retrieveSortedListenerSlice_eq)
  qed
  from 1 2 show ?thesis by blast
qed

text \<open>
  A dynamic entry with no active state, one with an active state and no payload, and a
  static entry with no payload: no listeners found.
\<close>

theorem retrieveSortedListenerSlice_skips_payloadless_witness:
  "configDump (writer_of sparse_dump) = Some (Wrapper (Inr sparse_dump)) \<and>
   dropPayloadless sparse_dump = \<lparr>DynamicListeners = [], StaticListeners = []\<rparr> \<and>
   retrieveSortedListenerSlice decode_example (writer_of sparse_dump) = Inl NoListeners"
proof -
  have c: "configDump (writer_of sparse_dump) = Some (Wrapper (Inr sparse_dump))"
    by (simp add: writer_of_def)
  have d: "\<forall>l\<in>set (DynamicListeners sparse_dump). \<not> dynamicHasPayload l"
    by (simp add: sparse_dump_def dynamicHasPayload_def activePayload_def)
  have s: "\<forall>l\<in>set (StaticListeners sparse_dump). \<not> staticHasPayload l"
    by (simp add: sparse_dump_def staticHasPayload_def)
  have e: "dropPayloadless sparse_dump = \<lparr>DynamicListeners = [], StaticListeners = []\<rparr>"
    by (simp add: dropPayloadless_def sparse_dump_def dynamicHasPayload_def staticHasPayload_def
        activePayload_def)
  from retrieveSortedListenerSlice_skips_payloadless [OF c, of decode_example] d s
  have "retrieveSortedListenerSlice decode_example (writer_of sparse_dump) = Inl NoListeners"
    by blast
  with c e show ?thesis by blast
qed

subsection \<open>Filter\<close>

lemma bind_exec_simps [simp]:
  "bind_exec Panic k = Panic" "bind_exec (Return x) k = k x"
  by (simp_all add: bind_exec_def)

lemma Verify_with_empty:
  "Verify_with classify \<lparr>Address = [], Port = 0, Type = []\<rparr> l = Return True"
  by (simp add: Verify_with_def)

text \<open>
  What \<^verbatim>\<open>Verify\<close> does on every filter and every listener: it panics when the filter
  has an address and the listener has no socket address, and returns whether the three
  checks pass otherwise.
\<close>

lemma Verify_eq:
  "Verify f l =
     (if Address f \<noteq> [] \<and> \<not> hasSocketAddress l then Panic else Return (matches f l))"
  by (auto simp: Verify_def Verify_with_def matches_def addressCheck_def portCheck_def
      typeCheck_def hasSocketAddress_def retrieveListenerAddress_def split: option.splits)

lemma Verify_true_iff: "Verify f l = Return True \<longleftrightarrow> matches f l"
  by (auto simp: Verify_eq matches_def addressCheck_def hasSocketAddress_def split: option.splits)

lemma Verify_false_iff:
  "Verify f l = Return False \<longleftrightarrow> \<not> matches f l \<and> (Address f = [] \<or> hasSocketAddress l)"
  by (auto simp: Verify_eq)

lemma dumpLoop_eq:
  "(\<forall>l\<in>set ls. hasSocketAddress l) \<or> Address f = [] \<Longrightarrow>
   dumpLoop f ls acc = Return (acc @ filter (matches f) ls)"
  by (induction ls arbitrary: acc) (auto simp: Verify_eq)

lemma matches_empty: "matches \<lparr>Address = [], Port = 0, Type = []\<rparr> l"
  by (simp add: matches_def addressCheck_def portCheck_def typeCheck_def)

text \<open>
  C7. The filter with all three fields unset matches every listener: \<^verbatim>\<open>Verify\<close> returns
  true, and does so whatever the classifier is, also one that would not return, so the
  classification is not computed; filtering a collection with it keeps the whole
  collection, as the filtering loop of the dump printer does.
\<close>

theorem empty_filter_matches:
  "Verify_with classify \<lparr>Address = [], Port = 0, Type = []\<rparr> l = Return True \<and>
   Verify \<lparr>Address = [], Port = 0, Type = []\<rparr> l = Return True \<and>
   filter (\<lambda>l. Verify \<lparr>Address = [], Port = 0, Type = []\<rparr> l = Return True) ls = ls \<and>
   dumpLoop \<lparr>Address = [], Port = 0, Type = []\<rparr> ls acc = Return (acc @ ls)"
  by (simp add: Verify_def Verify_with_empty dumpLoop_eq matches_empty)

text \<open>
  With a classifier that never returns, on the listener that has no socket address.
\<close>

theorem empty_filter_matches_witness:
  "Verify_with (\<lambda>l. Panic) \<lparr>Address = [], Port = 0, Type = []\<rparr> listener_pipe = Return True \<and>
   filter (\<lambda>l. Verify \<lparr>Address = [], Port = 0, Type = []\<rparr> l = Return True)
     [listener_tcp, listener_pipe, listener_http] = [listener_tcp, listener_pipe, listener_http]"
  using empty_filter_matches [of "\<lambda>l. Panic" listener_pipe "[listener_tcp, listener_pipe, listener_http]"]
  by blast

lemma hasSocketAddress_examples:
  "hasSocketAddress listener_http" "hasSocketAddress listener_tcp" "\<not> hasSocketAddress listener_pipe"
  by (simp_all add: hasSocketAddress_def GetSocketAddress_def listener_http_def listener_tcp_def
      listener_pipe_def)

lemma Verify_listener_pipe:
  "Verify \<lparr>Address = ''0.0.0.0'', Port = 0, Type = []\<rparr> listener_pipe = Panic"
  by (simp add: Verify_eq hasSocketAddress_examples)

text \<open>
  C6. On the listeners that have a socket address, and on every listener when the
  filter has no address, \<^verbatim>\<open>Verify\<close> returns whether each specified check passes
  (\<open>Verify_eq\<close>, \<open>Verify_true_iff\<close>). The code departs from the claim on a listener that
  has no socket address when the filter has an address: the address check cannot pass,
  yet \<^verbatim>\<open>Verify\<close> does not return false, it panics on the nil socket address. Here the
  listener is bound to a Unix domain socket, for which the port getter returns 0.
\<close>

theorem Verify_panics_on_pipe_listener:
  "Verify \<lparr>Address = ''0.0.0.0'', Port = 0, Type = []\<rparr> listener_pipe = Panic \<and>
   Verify \<lparr>Address = ''0.0.0.0'', Port = 0, Type = []\<rparr> listener_pipe \<noteq> Return False \<and>
   \<not> matches \<lparr>Address = ''0.0.0.0'', Port = 0, Type = []\<rparr> listener_pipe \<and>
   retrieveListenerPort listener_pipe = 0"
  by (simp add: Verify_def Verify_with_def retrieveListenerAddress_def retrieveListenerPort_def
      GetSocketAddress_def GetPortValue_def listener_pipe_def matches_def addressCheck_def)

subsection \<open>Printers\<close>

lemma retrieveListenerAddress_eq:
  "hasSocketAddress l \<Longrightarrow>
   retrieveListenerAddress l = Return (SocketAddress_Address (the (GetSocketAddress (Listener_Address l))))"
  by (auto simp: hasSocketAddress_def retrieveListenerAddress_def)

lemma row_eq:
  "hasSocketAddress l \<Longrightarrow>
   row l = SocketAddress_Address (the (GetSocketAddress (Listener_Address l))) @ [TAB]
      @ FormatUint (unat (retrieveListenerPort l)) @ [TAB] @ retrieveListenerType l @ [NL]"
  by (auto simp: hasSocketAddress_def row_def)

lemma summaryLoop_rows:
  "\<forall>l\<in>set ls. hasSocketAddress l \<Longrightarrow>
   summaryLoop f ls w = Return (w @ concat (map row (filter (matches f) ls)))"
proof (induction ls arbitrary: w)
  case Nil
  show ?case by simp
next
  case (Cons l ls)
  then have h: "hasSocketAddress l" and r: "\<forall>l\<in>set ls. hasSocketAddress l" by simp_all
  show ?case
    using h by (simp add: Verify_eq retrieveListenerAddress_eq row_eq Cons.IH [OF r])
qed

text \<open>
  The summary on a collection whose listeners all have a socket address: the header,
  then one row for each listener that passes the filter, in the order of the collection.
\<close>

lemma PrintListenerSummary_rows:
  assumes "retrieveSortedListenerSlice unm c = Inr ls" "\<forall>l\<in>set ls. hasSocketAddress l"
  shows "PrintListenerSummary layout unm c f =
           Return (c\<lparr>Stdout := Stdout c @ layout (header @ concat (map row (filter (matches f) ls)))\<rparr>,
                   None)"
  using assms
  by (simp add: PrintListenerSummary_def setupListenerConfigWriter_def summaryLoop_rows header_def)

text \<open>
  The dump when \<^verbatim>\<open>Verify\<close> returns on every listener of the collection: either the
  whole filtered collection is serialized and printed with a newline after it, or the
  serializer's error is returned, wrapped, and the sink is as it was.
\<close>

lemma PrintListenerDump_eq:
  assumes "retrieveSortedListenerSlice unm c = Inr ls"
    "(\<forall>l\<in>set ls. hasSocketAddress l) \<or> Address f = []"
  shows "PrintListenerDump marshal unm c f =
           (case marshal (filter (matches f) ls) [] ''    '' of
              Inl e \<Rightarrow> Return (c, Some (MarshalListeners e))
            | Inr out \<Rightarrow> Return (c\<lparr>Stdout := Stdout c @ out @ [NL]\<rparr>, None))"
  using assms
  by (simp add: PrintListenerDump_def setupListenerConfigWriter_def dumpLoop_eq)

lemma digit_simps:
  "digit 0 = CHR ''0''" "digit 1 = CHR ''1''" "digit 2 = CHR ''2''" "digit 3 = CHR ''3''"
  "digit 4 = CHR ''4''" "digit 5 = CHR ''5''" "digit 6 = CHR ''6''" "digit 7 = CHR ''7''"
  "digit 8 = CHR ''8''" "digit 9 = CHR ''9''"
  by code_simp+

lemma FormatUint_examples:
  "FormatUint 8080 = ''8080''" "FormatUint 9000 = ''9000''" "FormatUint 0 = ''0''"
  by (simp_all add: FormatUint.simps digit_simps)

lemma types_examples:
  "retrieveListenerType listener_http = ''HTTP''"
  "retrieveListenerType listener_tcp = ''TCP''"
  by (simp_all add: retrieveListenerType_def countFilters_def countFilter_def listener_http_def
      listener_tcp_def http_filter_def tcp_filter_def HTTPListener_def TCPListener_def
      GetValue_def BlackHoleCluster_def)

lemma row_examples:
  "row listener_http = ''10.0.0.1'' @ [TAB] @ ''8080'' @ [TAB] @ ''HTTP'' @ [NL]"
  "row listener_tcp = ''10.0.0.2'' @ [TAB] @ ''9000'' @ [TAB] @ ''TCP'' @ [NL]"
proof -
  have "retrieveListenerPort listener_http = 8080" "retrieveListenerPort listener_tcp = 9000"
    by (simp_all add: retrieveListenerPort_def GetSocketAddress_def GetPortValue_def
        listener_http_def listener_tcp_def)
  moreover have "GetSocketAddress (Listener_Address listener_http) =
      Some \<lparr>SocketAddress_Address = ''10.0.0.1'', PortSpecifier = Some (PortValue 8080)\<rparr>"
    "GetSocketAddress (Listener_Address listener_tcp) =
      Some \<lparr>SocketAddress_Address = ''10.0.0.2'', PortSpecifier = Some (PortValue 9000)\<rparr>"
    by (simp_all add: GetSocketAddress_def listener_http_def listener_tcp_def)
  ultimately show
    "row listener_http = ''10.0.0.1'' @ [TAB] @ ''8080'' @ [TAB] @ ''HTTP'' @ [NL]"
    "row listener_tcp = ''10.0.0.2'' @ [TAB] @ ''9000'' @ [TAB] @ ''TCP'' @ [NL]"
    by (simp_all add: row_def FormatUint_examples types_examples)
qed

lemma matches_port_8080:
  "matches \<lparr>Address = [], Port = 8080, Type = []\<rparr> listener_http"
  "\<not> matches \<lparr>Address = [], Port = 8080, Type = []\<rparr> listener_tcp"
  by (simp_all add: matches_def addressCheck_def portCheck_def typeCheck_def
      retrieveListenerPort_def GetSocketAddress_def GetPortValue_def listener_http_def
      listener_tcp_def)

lemma matches_type_tcp:
  "\<not> matches \<lparr>Address = [], Port = 0, Type = ''tcp''\<rparr> listener_http"
  "matches \<lparr>Address = [], Port = 0, Type = ''tcp''\<rparr> listener_tcp"
proof -
  have "\<not> EqualFold ''HTTP'' ''tcp''" "EqualFold ''TCP'' ''tcp''" by code_simp+
  then show "\<not> matches \<lparr>Address = [], Port = 0, Type = ''tcp''\<rparr> listener_http"
    "matches \<lparr>Address = [], Port = 0, Type = ''tcp''\<rparr> listener_tcp"
    by (simp_all add: matches_def addressCheck_def portCheck_def typeCheck_def types_examples)
qed

text \<open>
  The scenario of the specification: with no filter, the dynamic listener's row and then
  the static listener's; with the type \<^verbatim>\<open>tcp\<close>, the second row only; with the port
  8080, the first row only.
\<close>

lemma PrintListenerSummary_scenario:
  "PrintListenerSummary layout decode_example (writer_of scenario) \<lparr>Address = [], Port = 0, Type = []\<rparr> =
     Return (\<lparr>Stdout = layout (header @ ''10.0.0.1'' @ [TAB] @ ''8080'' @ [TAB] @ ''HTTP'' @ [NL]
                            @ ''10.0.0.2'' @ [TAB] @ ''9000'' @ [TAB] @ ''TCP'' @ [NL]),
              configDump = Some (Wrapper (Inr scenario))\<rparr>, None)"
  "PrintListenerSummary layout decode_example (writer_of scenario) \<lparr>Address = [], Port = 0, Type = ''tcp''\<rparr> =
     Return (\<lparr>Stdout = layout (header @ ''10.0.0.2'' @ [TAB] @ ''9000'' @ [TAB] @ ''TCP'' @ [NL]),
              configDump = Some (Wrapper (Inr scenario))\<rparr>, None)"
  "PrintListenerSummary layout decode_example (writer_of scenario) \<lparr>Address = [], Port = 8080, Type = []\<rparr> =
     Return (\<lparr>Stdout = layout (header @ ''10.0.0.1'' @ [TAB] @ ''8080'' @ [TAB] @ ''HTTP'' @ [NL]),
              configDump = Some (Wrapper (Inr scenario))\<rparr>, None)"
proof -
  have h: "\<forall>l\<in>set [listener_http, listener_tcp]. hasSocketAddress l"
    by (simp add: hasSocketAddress_examples)
  note r = PrintListenerSummary_rows [OF retrieve_scenario h]
  show "PrintListenerSummary layout decode_example (writer_of scenario) \<lparr>Address = [], Port = 0, Type = []\<rparr> =
     Return (\<lparr>Stdout = layout (header @ ''10.0.0.1'' @ [TAB] @ ''8080'' @ [TAB] @ ''HTTP'' @ [NL]
                            @ ''10.0.0.2'' @ [TAB] @ ''9000'' @ [TAB] @ ''TCP'' @ [NL]),
              configDump = Some (Wrapper (Inr scenario))\<rparr>, None)"
    using r [of layout "\<lparr>Address = [], Port = 0, Type = []\<rparr>"]
    by (simp add: matches_empty row_examples writer_of_def)
  show "PrintListenerSummary layout decode_example (writer_of scenario) \<lparr>Address = [], Port = 0, Type = ''tcp''\<rparr> =
     Return (\<lparr>Stdout = layout (header @ ''10.0.0.2'' @ [TAB] @ ''9000'' @ [TAB] @ ''TCP'' @ [NL]),
              configDump = Some (Wrapper (Inr scenario))\<rparr>, None)"
    using r [of layout "\<lparr>Address = [], Port = 0, Type = ''tcp''\<rparr>"]
    by (simp add: matches_type_tcp row_examples writer_of_def)
  show "PrintListenerSummary layout decode_example (writer_of scenario) \<lparr>Address = [], Port = 8080, Type = []\<rparr> =
     Return (\<lparr>Stdout = layout (header @ ''10.0.0.1'' @ [TAB] @ ''8080'' @ [TAB] @ ''HTTP'' @ [NL]),
              configDump = Some (Wrapper (Inr scenario))\<rparr>, None)"
    using r [of layout "\<lparr>Address = [], Port = 8080, Type = []\<rparr>"]
    by (simp add: matches_port_8080 row_examples writer_of_def)
qed

lemma retrieve_pipe_dump:
  "retrieveSortedListenerSlice decode_example (writer_of pipe_dump) = Inr [listener_pipe]"
  by (simp add: retrieveSortedListenerSlice_eq writer_of_def pipe_dump_def example_dump_defs
      decode_example_simps)

text \<open>
  C8. On a collection whose listeners all have a socket address the summary is the
  header line and one row for each listener that passes the filter, in the order of the
  collection (\<open>PrintListenerSummary_rows\<close>). The code departs from the claim on a
  collection that holds a listener with no socket address: extraction succeeds, the
  listener passes the filter with all fields unset, and the call panics on the nil
  socket address when it reads the address for the row; no row is written for the
  listener and the call does not return.
\<close>

theorem PrintListenerSummary_panics_on_pipe_listener:
  "retrieveSortedListenerSlice decode_example (writer_of pipe_dump) = Inr [listener_pipe] \<and>
   Verify \<lparr>Address = [], Port = 0, Type = []\<rparr> listener_pipe = Return True \<and>
   PrintListenerSummary layout decode_example (writer_of pipe_dump)
     \<lparr>Address = [], Port = 0, Type = []\<rparr> = Panic"
  by (simp add: retrieve_pipe_dump PrintListenerSummary_def setupListenerConfigWriter_def
      Verify_def Verify_with_empty retrieveListenerAddress_def GetSocketAddress_def
      listener_pipe_def)

text \<open>
  C9. When \<^verbatim>\<open>Verify\<close> returns on every listener of the collection, the dump either
  prints the whole filtered collection, serialized with the indent of four spaces, and a
  newline, or returns the wrapped error of the serializer and prints nothing
  (\<open>PrintListenerDump_eq\<close>). The code departs from the claim on a collection that holds
  a listener with no socket address when the filter has an address: extraction
  succeeds, and the call neither serializes the collection nor returns an error, it
  panics in \<^verbatim>\<open>Verify\<close>, whatever the serializer is.
\<close>

theorem PrintListenerDump_panics_on_pipe_listener:
  "retrieveSortedListenerSlice decode_example (writer_of pipe_dump) = Inr [listener_pipe] \<and>
   PrintListenerDump marshal decode_example (writer_of pipe_dump)
     \<lparr>Address = ''0.0.0.0'', Port = 0, Type = []\<rparr> = Panic"
  using Verify_listener_pipe
  by (simp add: retrieve_pipe_dump PrintListenerDump_def setupListenerConfigWriter_def)

end
